theory Spec2Isabelle
  imports Main "HOL-Library.Word"
begin

unbundle bit_operations_syntax

section \<open>The interaction controller of \<^verbatim>\<open>static/script.js\<close>\<close>

text \<open>
  The script holds three asynchronous click handlers, \<^verbatim>\<open>loadRepo\<close>,
  \<^verbatim>\<open>askQuestion\<close> and \<^verbatim>\<open>generateSummary\<close>. Each reads input fields of the
  page, validates them, issues one \<^verbatim>\<open>fetch\<close> and writes the result into an element of
  the page. The handlers are embedded as functions on an explicit page state. What the
  browser decides (how the \<^verbatim>\<open>fetch\<close> settles, what \<^verbatim>\<open>resp.json()\<close> yields, the wording
  of the exceptions the engine raises, how a number prints) is an argument of the model.
\<close>

subsection \<open>Strings\<close>

text \<open>
  A JavaScript string is a sequence of 16-bit code units. \<open>lit\<close> embeds the ASCII
  literals of the source.
\<close>

type_synonym jsstring = "16 word list"

definition lit :: "string \<Rightarrow> jsstring" where
  "lit s = map of_char s"

text \<open>
  \<^verbatim>\<open>String.prototype.trim\<close> strips the code units that ECMAScript calls WhiteSpace or
  LineTerminator from both ends.
\<close>

definition js_whitespace :: "16 word \<Rightarrow> bool" where
  "js_whitespace c \<longleftrightarrow>
     c \<in> {0x0009, 0x000A, 0x000B, 0x000C, 0x000D, 0x0020, 0x00A0, 0x1680,
          0x2028, 0x2029, 0x202F, 0x205F, 0x3000, 0xFEFF}
     \<or> (0x2000 \<le> c \<and> c \<le> 0x200A)"

definition trim :: "jsstring \<Rightarrow> jsstring" where
  "trim s = rev (dropWhile js_whitespace (rev (dropWhile js_whitespace s)))"

text \<open>
  \<^verbatim>\<open>encodeURIComponent\<close> throws a \<^verbatim>\<open>URIError\<close> exactly when its argument holds a
  surrogate code unit that is not part of a pair. The handlers never inspect the
  encoded text, so it is kept symbolic: \<open>PercentEncoded s\<close> stands for the encoding
  of \<open>s\<close>.
\<close>

definition high_surrogate :: "16 word \<Rightarrow> bool" where
  "high_surrogate c \<longleftrightarrow> 0xD800 \<le> c \<and> c \<le> 0xDBFF"

definition low_surrogate :: "16 word \<Rightarrow> bool" where
  "low_surrogate c \<longleftrightarrow> 0xDC00 \<le> c \<and> c \<le> 0xDFFF"

fun uri_encodable :: "jsstring \<Rightarrow> bool" where
  "uri_encodable [] = True"
| "uri_encodable [c] = (\<not> high_surrogate c \<and> \<not> low_surrogate c)"
| "uri_encodable (c # d # ds) =
     (if high_surrogate c then low_surrogate d \<and> uri_encodable ds
      else \<not> low_surrogate c \<and> uri_encodable (d # ds))"

text \<open>
  \<^verbatim>\<open>FormData.append\<close> takes its arguments as scalar value strings: every surrogate
  code unit that is not part of a pair is replaced by U+FFFD, and nothing is thrown.
\<close>

fun to_usv :: "jsstring \<Rightarrow> jsstring" where
  "to_usv [] = []"
| "to_usv [c] = [if high_surrogate c \<or> low_surrogate c then 0xFFFD else c]"
| "to_usv (c # d # ds) =
     (if high_surrogate c then
        (if low_surrogate d then c # d # to_usv ds else 0xFFFD # to_usv (d # ds))
      else (if low_surrogate c then 0xFFFD else c) # to_usv (d # ds))"

subsection \<open>Exceptions and the engine\<close>

text \<open>
  The handlers read one thing of a caught exception, its \<^verbatim>\<open>message\<close>.
\<close>

datatype exn = Exn (message: jsstring)

text \<open>
  The wording of the engine's own exceptions and the printing of numbers differ between
  browsers; the handlers are parametrised by them.
\<close>

record engine =
  null_read_message :: "jsstring \<Rightarrow> jsstring"
    \<comment> \<open>message of the TypeError for reading the named property of \<^verbatim>\<open>null\<close>\<close>
  to_primitive_message :: jsstring
    \<comment> \<open>message of the TypeError for an object without a usable \<^verbatim>\<open>toString\<close>\<close>
  uri_error_message :: jsstring
    \<comment> \<open>message of the URIError of \<^verbatim>\<open>encodeURIComponent\<close>\<close>
  number_to_string :: "64 word \<Rightarrow> jsstring"
    \<comment> \<open>\<^verbatim>\<open>Number::toString\<close> of a double, given by its bits\<close>

datatype encoded = PercentEncoded jsstring

definition encodeURIComponent :: "engine \<Rightarrow> jsstring \<Rightarrow> exn + encoded" where
  "encodeURIComponent eng s =
     (if uri_encodable s then Inr (PercentEncoded s) else Inl (Exn (uri_error_message eng)))"

subsection \<open>Values produced by \<^verbatim>\<open>JSON.parse\<close>\<close>

text \<open>
  A number is the IEEE 754 double it was rounded to, kept as its 64 bits. An object is
  its entries in source order; on a repeated key the last entry is the property.
\<close>

datatype json =
    JNull
  | JBool bool
  | JNumber "64 word"
  | JString jsstring
  | JArray "json list"
  | JObject "(jsstring \<times> json) list"

text \<open>
  \<open>get_field v k\<close> is the member access \<^verbatim>\<open>v.k\<close> for the names the handlers use
  (\<^verbatim>\<open>error\<close>, \<^verbatim>\<open>message\<close>, \<^verbatim>\<open>answer\<close>, \<^verbatim>\<open>summary\<close>), none of which is
  a property of a built-in prototype: it throws on \<^verbatim>\<open>null\<close>, finds own properties of an
  object and is \<^verbatim>\<open>undefined\<close> (\<open>None\<close>) everywhere else.
\<close>

fun get_field :: "engine \<Rightarrow> json \<Rightarrow> jsstring \<Rightarrow> exn + json option" where
  "get_field eng JNull k = Inl (Exn (null_read_message eng k))"
| "get_field eng (JObject kvs) k = Inr (map_of (rev kvs) k)"
| "get_field eng v k = Inr None"

text \<open>\<^verbatim>\<open>ToBoolean\<close>, as the operator \<^verbatim>\<open>||\<close> applies it.\<close>

definition double_zero :: "64 word \<Rightarrow> bool" where
  "double_zero w \<longleftrightarrow> w AND 0x7FFFFFFFFFFFFFFF = 0"

definition double_nan :: "64 word \<Rightarrow> bool" where
  "double_nan w \<longleftrightarrow>
     w AND 0x7FF0000000000000 = 0x7FF0000000000000 \<and> w AND 0x000FFFFFFFFFFFFF \<noteq> 0"

fun truthy :: "json option \<Rightarrow> bool" where
  "truthy None = False"
| "truthy (Some JNull) = False"
| "truthy (Some (JBool b)) = b"
| "truthy (Some (JNumber w)) = (\<not> double_zero w \<and> \<not> double_nan w)"
| "truthy (Some (JString s)) = (s \<noteq> [])"
| "truthy (Some (JArray xs)) = True"
| "truthy (Some (JObject kvs)) = True"

definition or_else :: "json option \<Rightarrow> jsstring \<Rightarrow> json option" where
  "or_else v fallback = (if truthy v then v else Some (JString fallback))"

text \<open>
  \<^verbatim>\<open>ToString\<close>. An array prints its elements joined by commas, \<^verbatim>\<open>null\<close> elements as
  the empty string. A parsed object prints as \<^verbatim>\<open>[object Object]\<close>, unless an entry
  named \<^verbatim>\<open>toString\<close> shadows the inherited method with a value that cannot be called;
  then the conversion throws a TypeError.
\<close>

fun to_string :: "engine \<Rightarrow> json \<Rightarrow> exn + jsstring"
  and join :: "engine \<Rightarrow> json list \<Rightarrow> exn + jsstring"
  and element :: "engine \<Rightarrow> json \<Rightarrow> exn + jsstring"
where
  "to_string eng JNull = Inr (lit ''null'')"
| "to_string eng (JBool b) = Inr (if b then lit ''true'' else lit ''false'')"
| "to_string eng (JNumber w) = Inr (number_to_string eng w)"
| "to_string eng (JString s) = Inr s"
| "to_string eng (JArray xs) = join eng xs"
| "to_string eng (JObject kvs) =
     (if lit ''toString'' \<in> set (map fst kvs) then Inl (Exn (to_primitive_message eng))
      else Inr (lit ''[object Object]''))"
| "join eng [] = Inr []"
| "join eng [x] = element eng x"
| "join eng (x # y # ys) =
     (case element eng x of
        Inl e \<Rightarrow> Inl e
      | Inr s \<Rightarrow> (case join eng (y # ys) of
                   Inl e \<Rightarrow> Inl e
                 | Inr t \<Rightarrow> Inr (s @ lit '','' @ t)))"
| "element eng JNull = Inr []"
| "element eng (JBool b) = to_string eng (JBool b)"
| "element eng (JNumber w) = to_string eng (JNumber w)"
| "element eng (JString s) = to_string eng (JString s)"
| "element eng (JArray xs) = to_string eng (JArray xs)"
| "element eng (JObject kvs) = to_string eng (JObject kvs)"

text \<open>
  \<open>js_concat s v\<close> is \<^verbatim>\<open>s + v\<close> for a string \<open>s\<close>; \<^verbatim>\<open>undefined\<close> prints as
  its name.
\<close>

fun js_concat :: "engine \<Rightarrow> jsstring \<Rightarrow> json option \<Rightarrow> exn + jsstring" where
  "js_concat eng s None = Inr (s @ lit ''undefined'')"
| "js_concat eng s (Some v) =
     (case to_string eng v of Inl e \<Rightarrow> Inl e | Inr t \<Rightarrow> Inr (s @ t))"

text \<open>
  The setter of \<^verbatim>\<open>textContent\<close> takes a nullable string: \<^verbatim>\<open>undefined\<close> and
  \<^verbatim>\<open>null\<close> clear the element, everything else is converted with \<^verbatim>\<open>ToString\<close>.
\<close>

fun text_content_of :: "engine \<Rightarrow> json option \<Rightarrow> exn + jsstring" where
  "text_content_of eng None = Inr []"
| "text_content_of eng (Some JNull) = Inr []"
| "text_content_of eng (Some v) = to_string eng v"

subsection \<open>The page, requests and responses\<close>

text \<open>
  The page holds the elements the handlers address by id: the value of each input
  field, the text of the two status areas, the paragraphs of the chat box in order. The
  notices raised with \<^verbatim>\<open>alert\<close> and the requests handed to \<^verbatim>\<open>fetch\<close> are recorded
  in the order they happen. All seven elements are taken to exist: the script binds a
  handler only to a button that is on the page, and the page is expected to hold the
  fields of its buttons.
\<close>

datatype payload =
    Urlencoded jsstring encoded
      \<comment> \<open>the string body: a prefix such as \<^verbatim>\<open>repo_url=\<close>, then the encoded value\<close>
  | FormData "(jsstring \<times> jsstring) list"

record request =
  endpoint :: jsstring
  payload :: payload

record page =
  repo_url_value :: jsstring
  files_text :: jsstring
  question_value :: jsstring
  chat_box :: "jsstring list"
  summary_role_value :: jsstring
  summary_repo_value :: jsstring
  summary_box_text :: jsstring
  alerts :: "jsstring list"
  requests :: "request list"

text \<open>
  A \<^verbatim>\<open>fetch\<close> either rejects (transport failure) or resolves to a response. Of the
  response the handlers read \<^verbatim>\<open>ok\<close> and the result of \<^verbatim>\<open>json()\<close>, which
  rejects (\<open>Inl\<close>) when the body cannot be read or parsed.
\<close>

record response =
  status :: nat
  body :: "exn + json"

definition ok :: "response \<Rightarrow> bool" where
  "ok resp \<longleftrightarrow> 200 \<le> status resp \<and> status resp \<le> 299"

datatype fetch_outcome = Rejected exn | Responded response

text \<open>
  A block of statements completes normally or throws; either way it leaves a page
  behind. A call of an async handler runs up to its first \<^verbatim>\<open>await\<close>: by then it has
  finished, or it is suspended with its request issued.
\<close>

datatype completion = Normal page | Throw exn page

datatype progress = Finished completion | Awaiting page

definition or_throw :: "exn + 'a \<Rightarrow> page \<Rightarrow> ('a \<Rightarrow> completion) \<Rightarrow> completion" where
  "or_throw r p k = (case r of Inl e \<Rightarrow> Throw e p | Inr x \<Rightarrow> k x)"

definition ellipsis :: "16 word" where
  "ellipsis = 0x2026"

subsection \<open>\<^verbatim>\<open>loadRepo\<close>\<close>

text \<open>
  \<open>loadRepo_try\<close> is the \<^verbatim>\<open>try\<close> block from the point where the \<^verbatim>\<open>fetch\<close>
  settles, \<open>loadRepo_catch\<close> its handler. Between the two awaits (\<^verbatim>\<open>fetch\<close>,
  \<^verbatim>\<open>json()\<close>) the handler neither reads nor writes the page, so they are resumed in
  one step, on the page as it is when the handler writes.
\<close>

definition loadRepo_try :: "engine \<Rightarrow> fetch_outcome \<Rightarrow> page \<Rightarrow> completion" where
  "loadRepo_try eng out p =
     (case out of
        Rejected e \<Rightarrow> Throw e p
      | Responded resp \<Rightarrow>
          (case body resp of
             Inl jsonErr \<Rightarrow> Normal (p\<lparr>files_text := []\<rparr>)
           | Inr data \<Rightarrow>
               if \<not> ok resp then
                 or_throw (get_field eng data (lit ''error'')) p (\<lambda>err.
                 or_throw (js_concat eng (lit ''Error: '')
                             (or_else err (lit ''Failed to load repository''))) p (\<lambda>s.
                 Normal (p\<lparr>files_text := s\<rparr>)))
               else
                 or_throw (get_field eng data (lit ''message'')) p (\<lambda>msg.
                 or_throw (text_content_of eng msg) p (\<lambda>s.
                 Normal (p\<lparr>files_text := s\<rparr>)))))"

definition loadRepo_catch :: "completion \<Rightarrow> completion" where
  "loadRepo_catch c =
     (case c of
        Normal p \<Rightarrow> Normal p
      | Throw e p \<Rightarrow> Normal (p\<lparr>files_text := lit ''Error: '' @ message e\<rparr>))"

definition loadRepo_resume :: "engine \<Rightarrow> fetch_outcome \<Rightarrow> page \<Rightarrow> completion" where
  "loadRepo_resume eng out p = loadRepo_catch (loadRepo_try eng out p)"

definition loadRepo_request :: "encoded \<Rightarrow> request" where
  "loadRepo_request enc =
     \<lparr>endpoint = lit ''/load_repo'', payload = Urlencoded (lit ''repo_url='') enc\<rparr>"

definition loadRepo_start :: "engine \<Rightarrow> page \<Rightarrow> progress" where
  "loadRepo_start eng p =
     (let repoUrl = trim (repo_url_value p) in
      if repoUrl = [] then
        Finished (Normal (p\<lparr>alerts := alerts p @ [lit ''Please enter a GitHub repo URL'']\<rparr>))
      else
        let p1 = p\<lparr>files_text := lit ''Loading repository'' @ [ellipsis]\<rparr> in
        (case encodeURIComponent eng repoUrl of
           Inl e \<Rightarrow> Finished (loadRepo_catch (Throw e p1))
         | Inr enc \<Rightarrow> Awaiting (p1\<lparr>requests := requests p1 @ [loadRepo_request enc]\<rparr>)))"

text \<open>One execution with nothing else running in between.\<close>

definition loadRepo :: "engine \<Rightarrow> fetch_outcome \<Rightarrow> page \<Rightarrow> completion" where
  "loadRepo eng out p =
     (case loadRepo_start eng p of
        Finished c \<Rightarrow> c
      | Awaiting p1 \<Rightarrow> loadRepo_resume eng out p1)"

subsection \<open>\<^verbatim>\<open>askQuestion\<close>\<close>

definition askQuestion_try :: "engine \<Rightarrow> fetch_outcome \<Rightarrow> page \<Rightarrow> completion" where
  "askQuestion_try eng out p =
     (case out of
        Rejected e \<Rightarrow> Throw e p
      | Responded resp \<Rightarrow>
          if \<not> ok resp then Throw (Exn (lit ''Failed to get answer'')) p
          else
            or_throw (body resp) p (\<lambda>data.
            or_throw (get_field eng data (lit ''answer'')) p (\<lambda>answer.
            or_throw (js_concat eng (lit ''Bot: '') answer) p (\<lambda>s.
            Normal (p\<lparr>chat_box := chat_box p @ [s]\<rparr>)))))"

definition askQuestion_catch :: "completion \<Rightarrow> completion" where
  "askQuestion_catch c =
     (case c of
        Normal p \<Rightarrow> Normal p
      | Throw e p \<Rightarrow> Normal (p\<lparr>chat_box := chat_box p @ [lit ''Error: '' @ message e]\<rparr>))"

definition askQuestion_resume :: "engine \<Rightarrow> fetch_outcome \<Rightarrow> page \<Rightarrow> completion" where
  "askQuestion_resume eng out p = askQuestion_catch (askQuestion_try eng out p)"

definition askQuestion_request :: "encoded \<Rightarrow> request" where
  "askQuestion_request enc =
     \<lparr>endpoint = lit ''/ask'', payload = Urlencoded (lit ''question='') enc\<rparr>"

definition askQuestion_start :: "engine \<Rightarrow> page \<Rightarrow> progress" where
  "askQuestion_start eng p =
     (let q = trim (question_value p) in
      if q = [] then
        Finished (Normal (p\<lparr>alerts := alerts p @ [lit ''Please enter a question'']\<rparr>))
      else
        let p1 = p\<lparr>chat_box := chat_box p @ [lit ''You: '' @ q]\<rparr> in
        (case encodeURIComponent eng q of
           Inl e \<Rightarrow> Finished (askQuestion_catch (Throw e p1))
         | Inr enc \<Rightarrow> Awaiting (p1\<lparr>requests := requests p1 @ [askQuestion_request enc]\<rparr>)))"

definition askQuestion :: "engine \<Rightarrow> fetch_outcome \<Rightarrow> page \<Rightarrow> completion" where
  "askQuestion eng out p =
     (case askQuestion_start eng p of
        Finished c \<Rightarrow> c
      | Awaiting p1 \<Rightarrow> askQuestion_resume eng out p1)"

subsection \<open>\<^verbatim>\<open>generateSummary\<close>\<close>

definition generateSummary_try :: "engine \<Rightarrow> fetch_outcome \<Rightarrow> page \<Rightarrow> completion" where
  "generateSummary_try eng out p =
     (case out of
        Rejected e \<Rightarrow> Throw e p
      | Responded resp \<Rightarrow>
          (case body resp of
             Inl jsonErr \<Rightarrow>
               Normal (p\<lparr>summary_box_text :=
                 lit ''Error: Unexpected response. Please check the backend.''\<rparr>)
           | Inr data \<Rightarrow>
               if \<not> ok resp then
                 or_throw (get_field eng data (lit ''error'')) p (\<lambda>err.
                 or_throw (js_concat eng (lit ''Error: '') (or_else err (lit ''Failed''))) p (\<lambda>s.
                 Normal (p\<lparr>summary_box_text := s\<rparr>)))
               else
                 or_throw (get_field eng data (lit ''summary'')) p (\<lambda>summary.
                 or_throw (text_content_of eng summary) p (\<lambda>s.
                 Normal (p\<lparr>summary_box_text := s\<rparr>)))))"

definition generateSummary_catch :: "completion \<Rightarrow> completion" where
  "generateSummary_catch c =
     (case c of
        Normal p \<Rightarrow> Normal p
      | Throw e p \<Rightarrow> Normal (p\<lparr>summary_box_text := lit ''Error: '' @ message e\<rparr>))"

definition generateSummary_resume :: "engine \<Rightarrow> fetch_outcome \<Rightarrow> page \<Rightarrow> completion" where
  "generateSummary_resume eng out p = generateSummary_catch (generateSummary_try eng out p)"

definition generateSummary_request :: "jsstring \<Rightarrow> jsstring \<Rightarrow> request" where
  "generateSummary_request role repoUrl =
     \<lparr>endpoint = lit ''/process_repo'',
      payload = FormData [(lit ''role'', to_usv role), (lit ''repo_link'', to_usv repoUrl)]\<rparr>"

definition generateSummary_start :: "page \<Rightarrow> progress" where
  "generateSummary_start p =
     (let role = trim (summary_role_value p);
          repoUrl = trim (summary_repo_value p) in
      if repoUrl = [] \<or> role = [] then
        Finished (Normal (p\<lparr>summary_box_text := lit ''Please enter both repo URL and role.''\<rparr>))
      else
        let p1 = p\<lparr>summary_box_text := lit ''Generating summary'' @ [ellipsis]\<rparr> in
        Awaiting (p1\<lparr>requests := requests p1 @ [generateSummary_request role repoUrl]\<rparr>))"

definition generateSummary :: "engine \<Rightarrow> fetch_outcome \<Rightarrow> page \<Rightarrow> completion" where
  "generateSummary eng out p =
     (case generateSummary_start p of
        Finished c \<Rightarrow> c
      | Awaiting p1 \<Rightarrow> generateSummary_resume eng out p1)"

subsection \<open>Observations and sample inputs\<close>

text \<open>
  A fetch has failed when it was rejected, answered with a status outside 200 to 299, or
  answered with a body that \<^verbatim>\<open>json()\<close> cannot deliver. A text reports an error to the
  operator when it starts with \<^verbatim>\<open>Error: \<close>; a reply in the chat log starts with
  \<^verbatim>\<open>Bot: \<close> or \<^verbatim>\<open>Error: \<close>.

  \<open>v8\<close> carries the wording of the V8 engine. The examples below hold no number, so
  its \<open>number_to_string\<close> is never evaluated and is left empty.
\<close>

definition v8 :: engine where
  "v8 = \<lparr>null_read_message = (\<lambda>k. lit ''Cannot read properties of null (reading '' @ [0x27] @ k @ [0x27] @ lit '')''),
         to_primitive_message = lit ''Cannot convert object to primitive value'',
         uri_error_message = lit ''URI malformed'',
         number_to_string = (\<lambda>w. [])\<rparr>"

definition blank_page :: page where
  "blank_page = \<lparr>repo_url_value = [], files_text = [], question_value = [], chat_box = [],
     summary_role_value = [], summary_repo_value = [], summary_box_text = [],
     alerts = [], requests = []\<rparr>"

definition reports_error :: "jsstring \<Rightarrow> bool" where
  "reports_error s \<longleftrightarrow> take 7 s = lit ''Error: ''"

definition is_reply :: "jsstring \<Rightarrow> bool" where
  "is_reply s \<longleftrightarrow> take 5 s = lit ''Bot: '' \<or> take 7 s = lit ''Error: ''"

definition unparseable :: "fetch_outcome \<Rightarrow> bool" where
  "unparseable out = (case out of Rejected e \<Rightarrow> False | Responded resp \<Rightarrow> isl (body resp))"

definition whitespace_page :: page where
  "whitespace_page = blank_page\<lparr>repo_url_value := [0x20, 0x09], summary_role_value := lit ''dev'',
     summary_repo_value := [0x3000]\<rparr>"

definition filled_page :: page where
  "filled_page = blank_page\<lparr>repo_url_value := lit '' a/b '', question_value := lit ''hi '',
     summary_role_value := lit ''dev'', summary_repo_value := lit ''a/b''\<rparr>"

text \<open>
  The body \<^verbatim>\<open>{"toString": null}\<close>: an object whose own entry shadows the inherited
  \<^verbatim>\<open>toString\<close>, so that it cannot be converted to a string.
\<close>

definition unprintable :: json where
  "unprintable = JObject [(lit ''toString'', JNull)]"


section \<open>Properties\<close>

subsection \<open>Strings\<close>

lemma trim_Nil_iff: "trim s = [] \<longleftrightarrow> list_all js_whitespace s"
proof -
  have "trim s = [] \<longleftrightarrow> (\<forall>c \<in> set (dropWhile js_whitespace s). js_whitespace c)"
    by (simp add: trim_def)
  also have "\<dots> \<longleftrightarrow> dropWhile js_whitespace s = []"
  proof
    assume all: "\<forall>c \<in> set (dropWhile js_whitespace s). js_whitespace c"
    show "dropWhile js_whitespace s = []"
    proof (rule ccontr)
      assume ne: "dropWhile js_whitespace s \<noteq> []"
      then have "hd (dropWhile js_whitespace s) \<in> set (dropWhile js_whitespace s)"
        by simp
      with all ne show False
        using hd_dropWhile [of js_whitespace s] by blast
    qed
  next
    assume "dropWhile js_whitespace s = []"
    then show "\<forall>c \<in> set (dropWhile js_whitespace s). js_whitespace c"
      by (auto dest: set_dropWhileD)
  qed
  also have "\<dots> \<longleftrightarrow> list_all js_whitespace s"
    by (simp add: list_all_iff)
  finally show ?thesis .
qed

lemma reports_error_prefix: "reports_error (lit ''Error: '' @ t)"
  by (simp add: reports_error_def lit_def)

lemma is_reply_bot: "is_reply (lit ''Bot: '' @ t)"
  by (simp add: is_reply_def lit_def)

lemma is_reply_error: "is_reply (lit ''Error: '' @ t)"
  by (simp add: is_reply_def lit_def)

lemma js_concat_Inr: "js_concat eng s v = Inr t \<Longrightarrow> \<exists>u. t = s @ u"
  by (cases v) (auto split: sum.splits)

lemma to_string_throws:
  "to_string eng v = Inl x \<Longrightarrow> x = Exn (to_primitive_message eng)"
  "join eng vs = Inl x \<Longrightarrow> x = Exn (to_primitive_message eng)"
  "element eng w = Inl x \<Longrightarrow> x = Exn (to_primitive_message eng)"
  by (induction eng v and eng vs and eng w rule: to_string_join_element.induct)
     (auto split: sum.splits if_splits)

text \<open>
  How a member read and the conversion of its result can come out: these are the cases
  the handlers distinguish.
\<close>

lemma get_field_cases:
  "data = JNull \<or> (\<exists>f. get_field eng data k = Inr f)"
  by (cases data) simp_all

lemma error_field_cases:
  "get_field eng data k = Inr err \<Longrightarrow>
   \<not> truthy err \<or>
   (\<exists>v. err = Some v \<and> truthy err \<and>
      ((\<exists>s. to_string eng v = Inr s) \<or> (\<exists>x. to_string eng v = Inl x)))"
  by (cases err; cases "to_string eng (the err)") auto

lemma message_field_cases:
  "get_field eng data k = Inr msg \<Longrightarrow>
   msg = None \<or> msg = Some JNull \<or>
   (\<exists>v. msg = Some v \<and> v \<noteq> JNull \<and>
      ((\<exists>s. to_string eng v = Inr s) \<or> (\<exists>x. to_string eng v = Inl x)))"
  by (cases msg; cases "to_string eng (the msg)") auto

subsection \<open>The phases of \<^verbatim>\<open>loadRepo\<close>\<close>

lemma loadRepo_start_blank:
  "trim (repo_url_value p) = [] \<Longrightarrow>
   loadRepo_start eng p =
     Finished (Normal (p\<lparr>alerts := alerts p @ [lit ''Please enter a GitHub repo URL'']\<rparr>))"
  by (simp add: loadRepo_start_def)

lemma loadRepo_start_sent:
  "trim (repo_url_value p) \<noteq> [] \<Longrightarrow> uri_encodable (trim (repo_url_value p)) \<Longrightarrow>
   loadRepo_start eng p =
     Awaiting (p\<lparr>files_text := lit ''Loading repository'' @ [ellipsis],
                 requests := requests p @
                   [loadRepo_request (PercentEncoded (trim (repo_url_value p)))]\<rparr>)"
  by (simp add: loadRepo_start_def encodeURIComponent_def Let_def)


lemma loadRepo_resume_unparseable:
  "body resp = Inl e \<Longrightarrow>
   loadRepo_resume eng (Responded resp) p = Normal (p\<lparr>files_text := []\<rparr>)"
  by (simp add: loadRepo_resume_def loadRepo_try_def loadRepo_catch_def)




lemma loadRepo_resume_error_field:
  assumes "\<not> ok resp" and "body resp = Inr data"
    and "get_field eng data (lit ''error'') = Inr err"
  shows "js_concat eng (lit ''Error: '') (or_else err (lit ''Failed to load repository'')) = Inr s \<Longrightarrow>
         loadRepo_resume eng (Responded resp) p = Normal (p\<lparr>files_text := s\<rparr>)"
  using assms
  by (simp add: loadRepo_resume_def loadRepo_try_def loadRepo_catch_def or_throw_def)

lemma loadRepo_resume_message:
  assumes "ok resp" and "body resp = Inr data"
    and "get_field eng data (lit ''message'') = Inr (Some (JString m))"
  shows "loadRepo_resume eng (Responded resp) p = Normal (p\<lparr>files_text := m\<rparr>)"
  using assms
  by (simp add: loadRepo_resume_def loadRepo_try_def loadRepo_catch_def or_throw_def)

lemma loadRepo_resume_null:
  "body resp = Inr JNull \<Longrightarrow>
   loadRepo_resume eng (Responded resp) p =
     Normal (p\<lparr>files_text := lit ''Error: '' @
       null_read_message eng (if ok resp then lit ''message'' else lit ''error'')\<rparr>)"
  by (simp add: loadRepo_resume_def loadRepo_try_def loadRepo_catch_def or_throw_def)

lemma loadRepo_resume_error_unprintable:
  assumes "\<not> ok resp" and "body resp = Inr data"
    and "get_field eng data (lit ''error'') = Inr (Some v)" and "truthy (Some v)"
    and "to_string eng v = Inl x"
  shows "loadRepo_resume eng (Responded resp) p =
           Normal (p\<lparr>files_text := lit ''Error: '' @ to_primitive_message eng\<rparr>)"
  using assms to_string_throws(1) [OF assms(5)]
  by (simp add: loadRepo_resume_def loadRepo_try_def loadRepo_catch_def or_throw_def or_else_def)

lemma loadRepo_resume_field:
  assumes "ok resp" and "body resp = Inr data"
    and "get_field eng data (lit ''message'') = Inr msg"
  shows "text_content_of eng msg = Inr s \<Longrightarrow>
           loadRepo_resume eng (Responded resp) p = Normal (p\<lparr>files_text := s\<rparr>)"
    and "text_content_of eng msg = Inl x \<Longrightarrow>
           loadRepo_resume eng (Responded resp) p =
             Normal (p\<lparr>files_text := lit ''Error: '' @ message x\<rparr>)"
  using assms
  by (simp_all add: loadRepo_resume_def loadRepo_try_def loadRepo_catch_def or_throw_def)

lemma text_content_of_value:
  "v \<noteq> JNull \<Longrightarrow> text_content_of eng (Some v) = to_string eng v"
  by (cases v) simp_all

lemma loadRepo_sent:
  "trim (repo_url_value p) \<noteq> [] \<Longrightarrow> uri_encodable (trim (repo_url_value p)) \<Longrightarrow>
   loadRepo eng out p =
     loadRepo_resume eng out
       (p\<lparr>files_text := lit ''Loading repository'' @ [ellipsis],
          requests := requests p @
            [loadRepo_request (PercentEncoded (trim (repo_url_value p)))]\<rparr>)"
  by (simp add: loadRepo_def loadRepo_start_sent)

subsection \<open>The phases of \<^verbatim>\<open>askQuestion\<close>\<close>


lemma askQuestion_start_sent:
  "trim (question_value p) \<noteq> [] \<Longrightarrow> uri_encodable (trim (question_value p)) \<Longrightarrow>
   askQuestion_start eng p =
     Awaiting (p\<lparr>chat_box := chat_box p @ [lit ''You: '' @ trim (question_value p)],
                 requests := requests p @
                   [askQuestion_request (PercentEncoded (trim (question_value p)))]\<rparr>)"
  by (simp add: askQuestion_start_def encodeURIComponent_def Let_def)

lemma askQuestion_start_malformed:
  "trim (question_value p) \<noteq> [] \<Longrightarrow> \<not> uri_encodable (trim (question_value p)) \<Longrightarrow>
   askQuestion_start eng p =
     Finished (Normal (p\<lparr>chat_box := chat_box p @
       [lit ''You: '' @ trim (question_value p), lit ''Error: '' @ uri_error_message eng]\<rparr>))"
  by (simp add: askQuestion_start_def encodeURIComponent_def Let_def askQuestion_catch_def)

lemma askQuestion_resume_Normal:
  "\<exists>r. askQuestion_resume eng out p = Normal (p\<lparr>chat_box := chat_box p @ [r]\<rparr>) \<and> is_reply r"
  by (auto simp: askQuestion_resume_def askQuestion_try_def askQuestion_catch_def or_throw_def
                 is_reply_bot is_reply_error
           split: fetch_outcome.splits sum.splits dest!: js_concat_Inr)


lemma askQuestion_once:
  assumes "trim (question_value p) \<noteq> []"
  shows "\<exists>r reqs. askQuestion eng out p =
           Normal (p\<lparr>chat_box := chat_box p @ [lit ''You: '' @ trim (question_value p), r],
                     requests := reqs\<rparr>) \<and> is_reply r"
proof (cases "uri_encodable (trim (question_value p))")
  case True
  let ?p1 = "p\<lparr>chat_box := chat_box p @ [lit ''You: '' @ trim (question_value p)],
                requests := requests p @
                  [askQuestion_request (PercentEncoded (trim (question_value p)))]\<rparr>"
  obtain r where r: "askQuestion_resume eng out ?p1 = Normal (?p1\<lparr>chat_box := chat_box ?p1 @ [r]\<rparr>)"
    and reply: "is_reply r"
    using askQuestion_resume_Normal [of eng out ?p1] by blast
  have "askQuestion eng out p = askQuestion_resume eng out ?p1"
    using assms True by (simp add: askQuestion_def askQuestion_start_sent)
  with r have "askQuestion eng out p =
      Normal (p\<lparr>chat_box := chat_box p @ [lit ''You: '' @ trim (question_value p), r],
                requests := requests p @
                  [askQuestion_request (PercentEncoded (trim (question_value p)))]\<rparr>)"
    by simp
  with reply show ?thesis by blast
next
  case False
  have "askQuestion eng out p =
      Normal (p\<lparr>chat_box := chat_box p @
        [lit ''You: '' @ trim (question_value p), lit ''Error: '' @ uri_error_message eng],
        requests := requests p\<rparr>)"
    using assms False by (simp add: askQuestion_def askQuestion_start_malformed)
  then show ?thesis using is_reply_error by blast
qed

subsection \<open>The phases of \<^verbatim>\<open>generateSummary\<close>\<close>

lemma generateSummary_start_blank:
  "trim (summary_repo_value p) = [] \<or> trim (summary_role_value p) = [] \<Longrightarrow>
   generateSummary_start p =
     Finished (Normal (p\<lparr>summary_box_text := lit ''Please enter both repo URL and role.''\<rparr>))"
  by (auto simp: generateSummary_start_def)

lemma generateSummary_start_sent:
  "trim (summary_repo_value p) \<noteq> [] \<Longrightarrow> trim (summary_role_value p) \<noteq> [] \<Longrightarrow>
   generateSummary_start p =
     Awaiting (p\<lparr>summary_box_text := lit ''Generating summary'' @ [ellipsis],
                 requests := requests p @
                   [generateSummary_request (trim (summary_role_value p))
                      (trim (summary_repo_value p))]\<rparr>)"
  by (simp add: generateSummary_start_def Let_def)

lemma generateSummary_resume_unparseable:
  "body resp = Inl e \<Longrightarrow>
   generateSummary_resume eng (Responded resp) p =
     Normal (p\<lparr>summary_box_text := lit ''Error: Unexpected response. Please check the backend.''\<rparr>)"
  by (simp add: generateSummary_resume_def generateSummary_try_def generateSummary_catch_def)


lemma unexpected_response_is_error:
  "lit ''Error: Unexpected response. Please check the backend.'' =
   lit ''Error: '' @ lit ''Unexpected response. Please check the backend.''"
  by (simp add: lit_def)


lemma generateSummary_sent:
  "trim (summary_repo_value p) \<noteq> [] \<Longrightarrow> trim (summary_role_value p) \<noteq> [] \<Longrightarrow>
   generateSummary eng out p =
     generateSummary_resume eng out
       (p\<lparr>summary_box_text := lit ''Generating summary'' @ [ellipsis],
          requests := requests p @
            [generateSummary_request (trim (summary_role_value p))
               (trim (summary_repo_value p))]\<rparr>)"
  by (simp add: generateSummary_def generateSummary_start_sent)


subsection \<open>Runs on the sample page\<close>

lemma filled_page_inputs:
  "trim (repo_url_value filled_page) = lit ''a/b''"
  "trim (question_value filled_page) = lit ''hi''"
  "trim (summary_role_value filled_page) = lit ''dev''"
  "trim (summary_repo_value filled_page) = lit ''a/b''"
  by (simp_all add: filled_page_def blank_page_def trim_def lit_def js_whitespace_def)

lemma filled_page_valid:
  "trim (repo_url_value filled_page) \<noteq> []"
  "uri_encodable (trim (repo_url_value filled_page))"
  "trim (question_value filled_page) \<noteq> []"
  "uri_encodable (trim (question_value filled_page))"
  "trim (summary_role_value filled_page) \<noteq> []"
  "trim (summary_repo_value filled_page) \<noteq> []"
  by (simp_all add: filled_page_inputs lit_def high_surrogate_def low_surrogate_def)

lemma filled_page_untouched:
  "requests filled_page = []" "alerts filled_page = []" "chat_box filled_page = []"
  by (simp_all add: filled_page_def blank_page_def)

lemma unprintable_throws:
  "to_string eng unprintable = Inl (Exn (to_primitive_message eng))"
  by (simp add: unprintable_def)

lemma v8_messages:
  "lit ''Error: '' @ null_read_message v8 (lit ''error'') =
     lit ''Error: Cannot read properties of null (reading '' @ [0x27] @ lit ''error'' @ [0x27, 0x29]"
  "lit ''Error: '' @ null_read_message v8 (lit ''message'') =
     lit ''Error: Cannot read properties of null (reading '' @ [0x27] @ lit ''message'' @ [0x27, 0x29]"
  "lit ''Error: '' @ to_primitive_message v8 =
     lit ''Error: Cannot convert object to primitive value''"
  by (simp_all add: v8_def lit_def)

lemma loadRepo_filled_page:
  "loadRepo eng out filled_page =
     loadRepo_resume eng out
       (filled_page\<lparr>files_text := lit ''Loading repository'' @ [ellipsis],
          requests := [loadRepo_request (PercentEncoded (lit ''a/b''))]\<rparr>)"
  using loadRepo_sent [OF filled_page_valid(1) filled_page_valid(2), of eng out]
  by (simp add: filled_page_inputs filled_page_untouched)

lemma generateSummary_filled_page:
  "generateSummary eng out filled_page =
     generateSummary_resume eng out
       (filled_page\<lparr>summary_box_text := lit ''Generating summary'' @ [ellipsis],
          requests := [generateSummary_request (lit ''dev'') (lit ''a/b'')]\<rparr>)"
  using generateSummary_sent [OF filled_page_valid(6) filled_page_valid(5), of eng out]
  by (simp add: filled_page_inputs filled_page_untouched)

lemma askQuestion_filled_page:
  "askQuestion eng out filled_page =
     askQuestion_resume eng out
       (filled_page\<lparr>chat_box := [lit ''You: hi''],
          requests := [askQuestion_request (PercentEncoded (lit ''hi''))]\<rparr>)"
  using askQuestion_start_sent [OF filled_page_valid(3) filled_page_valid(4), of eng]
  by (simp add: askQuestion_def filled_page_inputs filled_page_untouched lit_def)

lemma two_questions_example:
  "askQuestion v8
     (Responded \<lparr>status = 200, body = Inr (JObject [(lit ''answer'', JString (lit ''ok''))])\<rparr>)
     filled_page =
   Normal (filled_page\<lparr>chat_box := [lit ''You: hi'', lit ''Bot: ok''],
     requests := [askQuestion_request (PercentEncoded (lit ''hi''))]\<rparr>)"
  "askQuestion v8 (Rejected (Exn (lit ''Failed to fetch'')))
     (filled_page\<lparr>chat_box := [lit ''You: hi'', lit ''Bot: ok''], question_value := lit ''why''\<rparr>) =
   Normal (filled_page\<lparr>chat_box := [lit ''You: hi'', lit ''Bot: ok'', lit ''You: why'',
       lit ''Error: Failed to fetch''],
     question_value := lit ''why'',
     requests := [askQuestion_request (PercentEncoded (lit ''why''))]\<rparr>)"
proof -
  have "lit ''Bot: '' @ lit ''ok'' = lit ''Bot: ok''"
    by (simp add: lit_def)
  then show "askQuestion v8
     (Responded \<lparr>status = 200, body = Inr (JObject [(lit ''answer'', JString (lit ''ok''))])\<rparr>)
     filled_page =
   Normal (filled_page\<lparr>chat_box := [lit ''You: hi'', lit ''Bot: ok''],
     requests := [askQuestion_request (PercentEncoded (lit ''hi''))]\<rparr>)"
    by (simp add: askQuestion_filled_page askQuestion_resume_def askQuestion_try_def
          askQuestion_catch_def or_throw_def ok_def)
next
  let ?p = "filled_page\<lparr>chat_box := [lit ''You: hi'', lit ''Bot: ok''], question_value := lit ''why''\<rparr>"
  have q: "trim (question_value ?p) = lit ''why''"
    by (simp add: trim_def lit_def js_whitespace_def)
  have valid: "trim (question_value ?p) \<noteq> []" "uri_encodable (trim (question_value ?p))"
    unfolding q by (simp_all add: lit_def high_surrogate_def low_surrogate_def)
  have texts: "lit ''You: '' @ lit ''why'' = lit ''You: why''"
    "lit ''Error: '' @ lit ''Failed to fetch'' = lit ''Error: Failed to fetch''"
    by (simp_all add: lit_def)
  have "askQuestion_start v8 ?p =
      Awaiting (?p\<lparr>chat_box := chat_box ?p @ [lit ''You: '' @ trim (question_value ?p)],
        requests := requests ?p @ [askQuestion_request (PercentEncoded (trim (question_value ?p)))]\<rparr>)"
    using valid by (rule askQuestion_start_sent)
  then show "askQuestion v8 (Rejected (Exn (lit ''Failed to fetch''))) ?p =
   Normal (filled_page\<lparr>chat_box := [lit ''You: hi'', lit ''Bot: ok'', lit ''You: why'',
       lit ''Error: Failed to fetch''],
     question_value := lit ''why'',
     requests := [askQuestion_request (PercentEncoded (lit ''why''))]\<rparr>)"
    unfolding q
    by (simp add: askQuestion_def askQuestion_resume_def askQuestion_try_def
          askQuestion_catch_def texts filled_page_untouched)
qed

subsection \<open>Whole executions\<close>

lemma generateSummary_unparseable:
  assumes "trim (summary_repo_value p) \<noteq> []" and "trim (summary_role_value p) \<noteq> []"
    and "body resp = Inl e"
  shows "generateSummary eng (Responded resp) p =
           Normal (p\<lparr>summary_box_text :=
                       lit ''Error: Unexpected response. Please check the backend.'',
                     requests := requests p @
                       [generateSummary_request (trim (summary_role_value p))
                          (trim (summary_repo_value p))]\<rparr>)"
  using assms by (simp add: generateSummary_sent generateSummary_resume_unparseable)






section \<open>The claims\<close>

text \<open>
  \<^bold>\<open>C5.\<close> When the repository URL is empty or holds only whitespace, \<open>loadRepo\<close>
  raises the notice \<^verbatim>\<open>Please enter a GitHub repo URL\<close> and returns: it finishes before
  its first await, for every outcome the network could have had, and the trace of
  requests is unchanged. When the role or the repository URL of the summary form is empty
  or whitespace, \<open>generateSummary\<close> writes its guidance into the summary box and returns,
  again without a request.
\<close>

theorem empty_input_sends_nothing:
  "(list_all js_whitespace (repo_url_value p) \<longrightarrow>
      (\<exists>p'. loadRepo_start eng p = Finished (Normal p') \<and> loadRepo eng out p = Normal p' \<and>
            p' = p\<lparr>alerts := alerts p @ [lit ''Please enter a GitHub repo URL'']\<rparr> \<and>
            requests p' = requests p)) \<and>
   (list_all js_whitespace (summary_role_value p) \<or>
    list_all js_whitespace (summary_repo_value p) \<longrightarrow>
      (\<exists>p'. generateSummary_start p = Finished (Normal p') \<and>
            generateSummary eng out p = Normal p' \<and>
            p' = p\<lparr>summary_box_text := lit ''Please enter both repo URL and role.''\<rparr> \<and>
            requests p' = requests p))"
proof (intro conjI impI)
  assume "list_all js_whitespace (repo_url_value p)"
  then have "trim (repo_url_value p) = []"
    by (simp add: trim_Nil_iff)
  then show "\<exists>p'. loadRepo_start eng p = Finished (Normal p') \<and> loadRepo eng out p = Normal p' \<and>
            p' = p\<lparr>alerts := alerts p @ [lit ''Please enter a GitHub repo URL'']\<rparr> \<and>
            requests p' = requests p"
    by (simp add: loadRepo_def loadRepo_start_blank)
next
  assume "list_all js_whitespace (summary_role_value p) \<or>
          list_all js_whitespace (summary_repo_value p)"
  then have "trim (summary_repo_value p) = [] \<or> trim (summary_role_value p) = []"
    by (auto simp: trim_Nil_iff)
  then show "\<exists>p'. generateSummary_start p = Finished (Normal p') \<and>
            generateSummary eng out p = Normal p' \<and>
            p' = p\<lparr>summary_box_text := lit ''Please enter both repo URL and role.''\<rparr> \<and>
            requests p' = requests p"
    by (simp add: generateSummary_def generateSummary_start_blank)
qed

theorem empty_input_sends_nothing_witness:
  "list_all js_whitespace (repo_url_value whitespace_page) \<and>
   list_all js_whitespace (summary_repo_value whitespace_page) \<and>
   loadRepo v8 (Responded \<lparr>status = 200, body = Inr (JObject [])\<rparr>) whitespace_page =
     Normal (whitespace_page\<lparr>alerts := [lit ''Please enter a GitHub repo URL'']\<rparr>) \<and>
   generateSummary v8 (Responded \<lparr>status = 200, body = Inr (JObject [])\<rparr>) whitespace_page =
     Normal (whitespace_page\<lparr>summary_box_text := lit ''Please enter both repo URL and role.''\<rparr>)"
proof -
  have ws: "list_all js_whitespace (repo_url_value whitespace_page)"
    "list_all js_whitespace (summary_repo_value whitespace_page)"
    by (simp_all add: whitespace_page_def blank_page_def js_whitespace_def)
  have "alerts whitespace_page = []"
    by (simp add: whitespace_page_def blank_page_def)
  with ws show ?thesis
    using empty_input_sends_nothing
      [of whitespace_page v8 "Responded \<lparr>status = 200, body = Inr (JObject [])\<rparr>"]
    by simp
qed

text \<open>
  \<^bold>\<open>C2.\<close> A response to \<^verbatim>\<open>/load_repo\<close> with a success status whose body cannot be
  parsed leaves the display of \<open>loadRepo\<close> empty. Nothing else of the page differs from
  the page before the call but the issued request: no notice is raised and no error text
  is written.
\<close>

theorem loadRepo_unparseable_success_clears:
  assumes "trim (repo_url_value p) \<noteq> []" and "uri_encodable (trim (repo_url_value p))"
    and "ok resp" and "body resp = Inl e"
  shows "loadRepo eng (Responded resp) p =
           Normal (p\<lparr>files_text := [],
                     requests := requests p @
                       [loadRepo_request (PercentEncoded (trim (repo_url_value p)))]\<rparr>)"
  using assms by (simp add: loadRepo_sent loadRepo_resume_unparseable)

theorem loadRepo_unparseable_success_clears_witness:
  "ok \<lparr>status = 200, body = Inl (Exn (lit ''Unexpected end of JSON input''))\<rparr> \<and>
   loadRepo v8 (Responded \<lparr>status = 200, body = Inl (Exn (lit ''Unexpected end of JSON input''))\<rparr>)
     filled_page =
   Normal (filled_page\<lparr>files_text := [],
     requests := [loadRepo_request (PercentEncoded (lit ''a/b''))]\<rparr>)"
proof -
  let ?resp = "\<lparr>status = 200, body = Inl (Exn (lit ''Unexpected end of JSON input''))\<rparr>"
  have ok: "ok ?resp" by (simp add: ok_def)
  have unparseable: "body ?resp = Inl (Exn (lit ''Unexpected end of JSON input''))" by simp
  show ?thesis
    using ok loadRepo_unparseable_success_clears
      [OF filled_page_valid(1) filled_page_valid(2) ok unparseable, of v8]
    by (simp add: filled_page_inputs filled_page_untouched)
qed

text \<open>
  \<^bold>\<open>C1.\<close> The claim that a non-success response with an unparseable body displays
  \<^verbatim>\<open>Error: Failed to load repository\<close> fails: the handler of the rejected
  \<^verbatim>\<open>json()\<close> clears the display and returns before the status is looked at. On a 500
  response with an unparseable body the display is empty.
\<close>

theorem loadRepo_unparseable_500_counterexample:
  "\<not> ok \<lparr>status = 500, body = Inl (Exn (lit ''Unexpected token''))\<rparr> \<and>
   loadRepo v8 (Responded \<lparr>status = 500, body = Inl (Exn (lit ''Unexpected token''))\<rparr>)
     filled_page =
   Normal (filled_page\<lparr>files_text := [],
     requests := [loadRepo_request (PercentEncoded (lit ''a/b''))]\<rparr>) \<and>
   [] \<noteq> lit ''Error: Failed to load repository''"
proof -
  have "loadRepo v8 (Responded \<lparr>status = 500, body = Inl (Exn (lit ''Unexpected token''))\<rparr>)
      filled_page =
    Normal (filled_page\<lparr>files_text := [],
      requests := [loadRepo_request (PercentEncoded (lit ''a/b''))]\<rparr>)"
    by (simp add: loadRepo_filled_page loadRepo_resume_unparseable)
  then show ?thesis
    by (simp add: ok_def lit_def)
qed

text \<open>
  \<^bold>\<open>C1, amended.\<close> A response to \<^verbatim>\<open>/load_repo\<close> with a non-success status whose
  body cannot be parsed leaves the display of \<open>loadRepo\<close> empty, exactly as a success
  status does.
\<close>

theorem loadRepo_unparseable_error_status_clears:
  assumes "trim (repo_url_value p) \<noteq> []" and "uri_encodable (trim (repo_url_value p))"
    and "\<not> ok resp" and "body resp = Inl e"
  shows "loadRepo eng (Responded resp) p =
           Normal (p\<lparr>files_text := [],
                     requests := requests p @
                       [loadRepo_request (PercentEncoded (trim (repo_url_value p)))]\<rparr>)"
proof -
  have "loadRepo_resume eng (Responded resp)
          (p\<lparr>files_text := lit ''Loading repository'' @ [ellipsis],
             requests := requests p @
               [loadRepo_request (PercentEncoded (trim (repo_url_value p)))]\<rparr>) =
        Normal (p\<lparr>files_text := [],
                  requests := requests p @
                    [loadRepo_request (PercentEncoded (trim (repo_url_value p)))]\<rparr>)"
    using assms(4) by (simp add: loadRepo_resume_unparseable)
  with assms(1,2) show ?thesis
    by (simp add: loadRepo_sent)
qed

theorem loadRepo_unparseable_error_status_clears_witness:
  "\<not> ok \<lparr>status = 500, body = Inl (Exn (lit ''Unexpected token''))\<rparr> \<and>
   files_text (case loadRepo v8
       (Responded \<lparr>status = 500, body = Inl (Exn (lit ''Unexpected token''))\<rparr>) filled_page of
     Normal p \<Rightarrow> p | Throw e p \<Rightarrow> p) = []"
proof -
  let ?resp = "\<lparr>status = 500, body = Inl (Exn (lit ''Unexpected token''))\<rparr>"
  have status: "\<not> ok ?resp" by (simp add: ok_def)
  have unparseable: "body ?resp = Inl (Exn (lit ''Unexpected token''))" by simp
  show ?thesis
    using status loadRepo_unparseable_error_status_clears
      [OF filled_page_valid(1) filled_page_valid(2) status unparseable, of v8]
    by simp
qed

text \<open>
  \<^bold>\<open>C4.\<close> The claim that a non-success response shows the error field whenever it is
  present fails: the field is chosen with \<^verbatim>\<open>||\<close>, so a field that is present but
  falsy gives way to the fallback. On a 500 response with the body \<^verbatim>\<open>{"error": ""}\<close> the
  display is \<^verbatim>\<open>Error: Failed to load repository\<close>, not \<^verbatim>\<open>Error: \<close> followed by the
  empty field.
\<close>

theorem loadRepo_error_field_counterexample:
  "\<not> ok \<lparr>status = 500, body = Inr (JObject [(lit ''error'', JString [])])\<rparr> \<and>
   get_field v8 (JObject [(lit ''error'', JString [])]) (lit ''error'') = Inr (Some (JString [])) \<and>
   loadRepo v8 (Responded \<lparr>status = 500, body = Inr (JObject [(lit ''error'', JString [])])\<rparr>)
     filled_page =
   Normal (filled_page\<lparr>files_text := lit ''Error: Failed to load repository'',
     requests := [loadRepo_request (PercentEncoded (lit ''a/b''))]\<rparr>) \<and>
   lit ''Error: Failed to load repository'' \<noteq> lit ''Error: '' @ []"
proof -
  let ?data = "JObject [(lit ''error'', JString [])]"
  let ?resp = "\<lparr>status = 500, body = Inr ?data\<rparr>"
  have status: "\<not> ok ?resp" by (simp add: ok_def)
  have field: "get_field v8 ?data (lit ''error'') = Inr (Some (JString []))" by simp
  have "js_concat v8 (lit ''Error: '') (or_else (Some (JString [])) (lit ''Failed to load repository''))
      = Inr (lit ''Error: Failed to load repository'')"
    by (simp add: or_else_def lit_def)
  then have "loadRepo_resume v8 (Responded ?resp)
      (filled_page\<lparr>files_text := lit ''Loading repository'' @ [ellipsis],
         requests := [loadRepo_request (PercentEncoded (lit ''a/b''))]\<rparr>) =
    Normal (filled_page\<lparr>files_text := lit ''Error: Failed to load repository'',
      requests := [loadRepo_request (PercentEncoded (lit ''a/b''))]\<rparr>)"
    using loadRepo_resume_error_field [OF status _ field] by simp
  then have "loadRepo v8 (Responded ?resp) filled_page =
    Normal (filled_page\<lparr>files_text := lit ''Error: Failed to load repository'',
      requests := [loadRepo_request (PercentEncoded (lit ''a/b''))]\<rparr>)"
    by (simp add: loadRepo_filled_page)
  moreover have "lit ''Error: Failed to load repository'' \<noteq> lit ''Error: '' @ []"
    by (simp add: lit_def)
  ultimately show ?thesis using status field by blast
qed

text \<open>
  \<^bold>\<open>C4, amended.\<close> For every non-success response to \<^verbatim>\<open>/load_repo\<close> whose body
  parses as JSON, \<open>loadRepo\<close> displays a text starting with \<^verbatim>\<open>Error: \<close>, continued
  as follows. When the \<^verbatim>\<open>error\<close> field is truthy, by the field converted to a string,
  which for a non-empty string is the field itself. When the field is absent or falsy
  (the empty string, \<^verbatim>\<open>null\<close>, \<^verbatim>\<open>false\<close>, a zero), by
  \<^verbatim>\<open>Failed to load repository\<close>. When the body is \<^verbatim>\<open>null\<close>, by the message of the
  TypeError that reading its member throws. When the truthy field cannot be converted to a
  string, by the message of the TypeError of the conversion. These cases are exhaustive
  (\<open>get_field_cases\<close>, \<open>error_field_cases\<close>).
  The instances that follow the theorem are a 500 response with the body
  \<^verbatim>\<open>{"error": "rate limited"}\<close>, a 404 response with the body \<^verbatim>\<open>{}\<close>, a 500 response
  with the body \<^verbatim>\<open>null\<close> and a 500 response with the body
  \<^verbatim>\<open>{"error": {"toString": null}}\<close>.
\<close>

theorem loadRepo_error_status_display:
  assumes "trim (repo_url_value p) \<noteq> []" and "uri_encodable (trim (repo_url_value p))"
    and "\<not> ok resp" and "body resp = Inr data"
  shows "let shown = (\<lambda>t. loadRepo eng (Responded resp) p =
             Normal (p\<lparr>files_text := t,
                       requests := requests p @
                         [loadRepo_request (PercentEncoded (trim (repo_url_value p)))]\<rparr>))
         in (data = JNull \<longrightarrow> shown (lit ''Error: '' @ null_read_message eng (lit ''error''))) \<and>
            (\<forall>err. get_field eng data (lit ''error'') = Inr err \<longrightarrow>
               (\<not> truthy err \<longrightarrow> shown (lit ''Error: Failed to load repository'')) \<and>
               (\<forall>e. err = Some (JString e) \<and> e \<noteq> [] \<longrightarrow> shown (lit ''Error: '' @ e)) \<and>
               (\<forall>v s. err = Some v \<and> truthy err \<and> to_string eng v = Inr s \<longrightarrow>
                  shown (lit ''Error: '' @ s)) \<and>
               (\<forall>v x. err = Some v \<and> truthy err \<and> to_string eng v = Inl x \<longrightarrow>
                  shown (lit ''Error: '' @ to_primitive_message eng)))"
proof -
  let ?p1 = "p\<lparr>files_text := lit ''Loading repository'' @ [ellipsis],
               requests := requests p @
                 [loadRepo_request (PercentEncoded (trim (repo_url_value p)))]\<rparr>"
  let ?shown = "\<lambda>t. loadRepo eng (Responded resp) p =
      Normal (p\<lparr>files_text := t,
                requests := requests p @
                  [loadRepo_request (PercentEncoded (trim (repo_url_value p)))]\<rparr>)"
  have run: "loadRepo eng (Responded resp) p = loadRepo_resume eng (Responded resp) ?p1"
    using assms(1,2) by (rule loadRepo_sent)
  have null_case: "?shown (lit ''Error: '' @ null_read_message eng (lit ''error''))"
    if "data = JNull"
    using loadRepo_resume_null [of resp eng ?p1] assms(3,4) that run by simp
  have concat: "?shown s"
    if "get_field eng data (lit ''error'') = Inr err"
      "js_concat eng (lit ''Error: '') (or_else err (lit ''Failed to load repository'')) = Inr s"
    for err s
    using loadRepo_resume_error_field [OF assms(3,4) that, of ?p1] run by simp
  have falsy_case: "?shown (lit ''Error: Failed to load repository'')"
    if "get_field eng data (lit ''error'') = Inr err" "\<not> truthy err" for err
    using that(2) by (intro concat [OF that(1)]) (simp add: or_else_def lit_def)
  have truthy_case: "?shown (lit ''Error: '' @ s)"
    if "get_field eng data (lit ''error'') = Inr err" "err = Some v" "truthy err"
      "to_string eng v = Inr s" for err v s
    using that(2-) by (intro concat [OF that(1)]) (simp add: or_else_def)
  have string_case: "?shown (lit ''Error: '' @ e)"
    if "get_field eng data (lit ''error'') = Inr err" "err = Some (JString e)" "e \<noteq> []"
    for err e
    using that(2-) by (intro truthy_case [OF that(1), of "JString e"]) simp_all
  have thrown_case: "?shown (lit ''Error: '' @ to_primitive_message eng)"
    if "get_field eng data (lit ''error'') = Inr err" "err = Some v" "truthy err"
      "to_string eng v = Inl x" for err v x
    using loadRepo_resume_error_unprintable [OF assms(3,4), of eng v x ?p1] that run by simp
  show ?thesis
    unfolding Let_def
    using null_case falsy_case truthy_case string_case thrown_case by blast
qed

theorem loadRepo_error_status_display_witness:
  "loadRepo v8
     (Responded \<lparr>status = 500, body = Inr (JObject [(lit ''error'', JString (lit ''rate limited''))])\<rparr>)
     filled_page =
   Normal (filled_page\<lparr>files_text := lit ''Error: rate limited'',
     requests := [loadRepo_request (PercentEncoded (lit ''a/b''))]\<rparr>) \<and>
   loadRepo v8 (Responded \<lparr>status = 404, body = Inr (JObject [])\<rparr>) filled_page =
   Normal (filled_page\<lparr>files_text := lit ''Error: Failed to load repository'',
     requests := [loadRepo_request (PercentEncoded (lit ''a/b''))]\<rparr>) \<and>
   loadRepo v8 (Responded \<lparr>status = 500, body = Inr JNull\<rparr>) filled_page =
   Normal (filled_page\<lparr>files_text :=
       lit ''Error: Cannot read properties of null (reading '' @ [0x27] @ lit ''error'' @ [0x27, 0x29],
     requests := [loadRepo_request (PercentEncoded (lit ''a/b''))]\<rparr>) \<and>
   loadRepo v8 (Responded \<lparr>status = 500, body = Inr (JObject [(lit ''error'', unprintable)])\<rparr>)
     filled_page =
   Normal (filled_page\<lparr>files_text := lit ''Error: Cannot convert object to primitive value'',
     requests := [loadRepo_request (PercentEncoded (lit ''a/b''))]\<rparr>)"
proof -
  let ?limited = "JObject [(lit ''error'', JString (lit ''rate limited''))]"
  let ?broken = "JObject [(lit ''error'', unprintable)]"
  note rule = loadRepo_error_status_display
    [OF filled_page_valid(1) filled_page_valid(2), of _ _ v8, unfolded Let_def]
  have nonempty: "lit ''rate limited'' \<noteq> []" by (simp add: lit_def)
  have rendered: "lit ''Error: '' @ lit ''rate limited'' = lit ''Error: rate limited''"
    by (simp add: lit_def)
  have "get_field v8 ?limited (lit ''error'') = Inr (Some (JString (lit ''rate limited'')))"
    by simp
  with rule [of "\<lparr>status = 500, body = Inr ?limited\<rparr>" ?limited] nonempty
  have supplied: "loadRepo v8 (Responded \<lparr>status = 500, body = Inr ?limited\<rparr>) filled_page =
      Normal (filled_page\<lparr>files_text := lit ''Error: '' @ lit ''rate limited'',
        requests := requests filled_page @
          [loadRepo_request (PercentEncoded (trim (repo_url_value filled_page)))]\<rparr>)"
    by (simp add: ok_def)
  have "get_field v8 (JObject []) (lit ''error'') = Inr None"
    by simp
  with rule [of "\<lparr>status = 404, body = Inr (JObject [])\<rparr>" "JObject []"]
  have fallback: "loadRepo v8 (Responded \<lparr>status = 404, body = Inr (JObject [])\<rparr>) filled_page =
      Normal (filled_page\<lparr>files_text := lit ''Error: Failed to load repository'',
        requests := requests filled_page @
          [loadRepo_request (PercentEncoded (trim (repo_url_value filled_page)))]\<rparr>)"
    by (simp add: ok_def)
  from rule [of "\<lparr>status = 500, body = Inr JNull\<rparr>" JNull]
  have null: "loadRepo v8 (Responded \<lparr>status = 500, body = Inr JNull\<rparr>) filled_page =
      Normal (filled_page\<lparr>files_text := lit ''Error: '' @ null_read_message v8 (lit ''error''),
        requests := requests filled_page @
          [loadRepo_request (PercentEncoded (trim (repo_url_value filled_page)))]\<rparr>)"
    by (simp add: ok_def)
  have "get_field v8 ?broken (lit ''error'') = Inr (Some unprintable)"
    "truthy (Some unprintable)"
    by (simp_all add: unprintable_def)
  with rule [of "\<lparr>status = 500, body = Inr ?broken\<rparr>" ?broken] unprintable_throws [of v8]
  have thrown: "loadRepo v8 (Responded \<lparr>status = 500, body = Inr ?broken\<rparr>) filled_page =
      Normal (filled_page\<lparr>files_text := lit ''Error: '' @ to_primitive_message v8,
        requests := requests filled_page @
          [loadRepo_request (PercentEncoded (trim (repo_url_value filled_page)))]\<rparr>)"
    by (simp add: ok_def)
  from supplied fallback null thrown show ?thesis
    by (simp add: rendered v8_messages filled_page_inputs filled_page_untouched)
qed

text \<open>
  \<^bold>\<open>C6.\<close> The claim that every success response whose body parses as JSON shows
  the message field verbatim fails on bodies that parse and hold no string message: a 200
  response with the body \<^verbatim>\<open>null\<close> and a 200 response with the body
  \<^verbatim>\<open>{"message": {"toString": null}}\<close> both end with an error text in the display.
\<close>

theorem loadRepo_success_counterexample:
  "ok \<lparr>status = 200, body = Inr JNull\<rparr> \<and>
   loadRepo v8 (Responded \<lparr>status = 200, body = Inr JNull\<rparr>) filled_page =
   Normal (filled_page\<lparr>files_text :=
       lit ''Error: Cannot read properties of null (reading '' @ [0x27] @ lit ''message'' @ [0x27, 0x29],
     requests := [loadRepo_request (PercentEncoded (lit ''a/b''))]\<rparr>) \<and>
   ok \<lparr>status = 200, body = Inr (JObject [(lit ''message'', unprintable)])\<rparr> \<and>
   get_field v8 (JObject [(lit ''message'', unprintable)]) (lit ''message'') = Inr (Some unprintable) \<and>
   loadRepo v8 (Responded \<lparr>status = 200, body = Inr (JObject [(lit ''message'', unprintable)])\<rparr>)
     filled_page =
   Normal (filled_page\<lparr>files_text := lit ''Error: Cannot convert object to primitive value'',
     requests := [loadRepo_request (PercentEncoded (lit ''a/b''))]\<rparr>)"
proof -
  let ?broken = "JObject [(lit ''message'', unprintable)]"
  have success: "ok \<lparr>status = 200, body = Inr JNull\<rparr>"
    "ok \<lparr>status = 200, body = Inr ?broken\<rparr>"
    by (simp_all add: ok_def)
  have field: "get_field v8 ?broken (lit ''message'') = Inr (Some unprintable)"
    by simp
  have "text_content_of v8 (Some unprintable) = Inl (Exn (to_primitive_message v8))"
    by (simp add: unprintable_def)
  from loadRepo_resume_field(2) [OF success(2) _ field this]
  have thrown: "loadRepo v8 (Responded \<lparr>status = 200, body = Inr ?broken\<rparr>) filled_page =
      Normal (filled_page\<lparr>files_text := lit ''Error: Cannot convert object to primitive value'',
        requests := [loadRepo_request (PercentEncoded (lit ''a/b''))]\<rparr>)"
    by (simp add: loadRepo_filled_page v8_messages)
  have null: "loadRepo v8 (Responded \<lparr>status = 200, body = Inr JNull\<rparr>) filled_page =
      Normal (filled_page\<lparr>files_text :=
          lit ''Error: Cannot read properties of null (reading '' @ [0x27] @ lit ''message'' @ [0x27, 0x29],
        requests := [loadRepo_request (PercentEncoded (lit ''a/b''))]\<rparr>)"
    using success(1) by (simp add: loadRepo_filled_page loadRepo_resume_null v8_messages)
  from success field thrown null show ?thesis
    by blast
qed

text \<open>
  \<^bold>\<open>C6, amended.\<close> For every success response to \<^verbatim>\<open>/load_repo\<close> whose body parses
  as JSON: when the \<^verbatim>\<open>message\<close> field is a string, \<open>loadRepo\<close> displays exactly that
  string; when the field is absent or \<^verbatim>\<open>null\<close>, the display is cleared; any other
  field is displayed converted to a string; when the body is \<^verbatim>\<open>null\<close> or the field
  cannot be converted to a string, the display is \<^verbatim>\<open>Error: \<close> followed by the message
  of the TypeError thrown. These cases are exhaustive (\<open>get_field_cases\<close>,
  \<open>message_field_cases\<close>). The instances that follow the
  theorem are 200 responses with the bodies \<^verbatim>\<open>{"message": "42 files"}\<close> and
  \<^verbatim>\<open>{"message": true}\<close>, a 202 response with the body \<^verbatim>\<open>{}\<close>, and 201 responses
  with the bodies \<^verbatim>\<open>null\<close> and \<^verbatim>\<open>{"message": {"toString": null}}\<close>.
\<close>

theorem loadRepo_success_displays_message:
  assumes "trim (repo_url_value p) \<noteq> []" and "uri_encodable (trim (repo_url_value p))"
    and "ok resp" and "body resp = Inr data"
  shows "let shown = (\<lambda>t. loadRepo eng (Responded resp) p =
             Normal (p\<lparr>files_text := t,
                       requests := requests p @
                         [loadRepo_request (PercentEncoded (trim (repo_url_value p)))]\<rparr>))
         in (data = JNull \<longrightarrow> shown (lit ''Error: '' @ null_read_message eng (lit ''message''))) \<and>
            (\<forall>msg. get_field eng data (lit ''message'') = Inr msg \<longrightarrow>
               (\<forall>m. msg = Some (JString m) \<longrightarrow> shown m) \<and>
               (msg = None \<or> msg = Some JNull \<longrightarrow> shown []) \<and>
               (\<forall>v s. msg = Some v \<and> v \<noteq> JNull \<and> to_string eng v = Inr s \<longrightarrow> shown s) \<and>
               (\<forall>v x. msg = Some v \<and> to_string eng v = Inl x \<longrightarrow>
                  shown (lit ''Error: '' @ to_primitive_message eng)))"
proof -
  let ?p1 = "p\<lparr>files_text := lit ''Loading repository'' @ [ellipsis],
               requests := requests p @
                 [loadRepo_request (PercentEncoded (trim (repo_url_value p)))]\<rparr>"
  let ?shown = "\<lambda>t. loadRepo eng (Responded resp) p =
      Normal (p\<lparr>files_text := t,
                requests := requests p @
                  [loadRepo_request (PercentEncoded (trim (repo_url_value p)))]\<rparr>)"
  have run: "loadRepo eng (Responded resp) p = loadRepo_resume eng (Responded resp) ?p1"
    using assms(1,2) by (rule loadRepo_sent)
  have null_case: "?shown (lit ''Error: '' @ null_read_message eng (lit ''message''))"
    if "data = JNull"
    using loadRepo_resume_null [of resp eng ?p1] assms(3,4) that run by simp
  have written: "?shown s"
    if "get_field eng data (lit ''message'') = Inr msg" "text_content_of eng msg = Inr s"
    for msg s
    using loadRepo_resume_field(1) [OF assms(3,4) that, of ?p1] run by simp
  have string_case: "?shown m"
    if "get_field eng data (lit ''message'') = Inr msg" "msg = Some (JString m)" for msg m
    using that(2) by (intro written [OF that(1)]) simp
  have cleared_case: "?shown []"
    if "get_field eng data (lit ''message'') = Inr msg" "msg = None \<or> msg = Some JNull" for msg
    using that(2) by (intro written [OF that(1)]) auto
  have value_case: "?shown s"
    if "get_field eng data (lit ''message'') = Inr msg" "msg = Some v" "v \<noteq> JNull"
      "to_string eng v = Inr s" for msg v s
    using that(2-) by (intro written [OF that(1)]) (simp add: text_content_of_value)
  have thrown_case: "?shown (lit ''Error: '' @ to_primitive_message eng)"
    if field: "get_field eng data (lit ''message'') = Inr msg" and "msg = Some v"
      and throws: "to_string eng v = Inl x" for msg v x
  proof -
    have "v \<noteq> JNull"
      using throws by auto
    with that have "text_content_of eng msg = Inl x"
      by (simp add: text_content_of_value)
    from loadRepo_resume_field(2) [OF assms(3,4) field this, of ?p1] run
    show ?thesis
      using to_string_throws(1) [OF throws] by simp
  qed
  show ?thesis
    unfolding Let_def
    using null_case string_case cleared_case value_case thrown_case by blast
qed

theorem loadRepo_success_displays_message_witness:
  "loadRepo v8
     (Responded \<lparr>status = 200, body = Inr (JObject [(lit ''message'', JString (lit ''42 files''))])\<rparr>)
     filled_page =
   Normal (filled_page\<lparr>files_text := lit ''42 files'',
     requests := [loadRepo_request (PercentEncoded (lit ''a/b''))]\<rparr>) \<and>
   loadRepo v8 (Responded \<lparr>status = 202, body = Inr (JObject [])\<rparr>) filled_page =
   Normal (filled_page\<lparr>files_text := [],
     requests := [loadRepo_request (PercentEncoded (lit ''a/b''))]\<rparr>) \<and>
   loadRepo v8 (Responded \<lparr>status = 200, body = Inr (JObject [(lit ''message'', JBool True)])\<rparr>)
     filled_page =
   Normal (filled_page\<lparr>files_text := lit ''true'',
     requests := [loadRepo_request (PercentEncoded (lit ''a/b''))]\<rparr>) \<and>
   loadRepo v8 (Responded \<lparr>status = 201, body = Inr JNull\<rparr>) filled_page =
   Normal (filled_page\<lparr>files_text :=
       lit ''Error: Cannot read properties of null (reading '' @ [0x27] @ lit ''message'' @ [0x27, 0x29],
     requests := [loadRepo_request (PercentEncoded (lit ''a/b''))]\<rparr>) \<and>
   loadRepo v8 (Responded \<lparr>status = 201, body = Inr (JObject [(lit ''message'', unprintable)])\<rparr>)
     filled_page =
   Normal (filled_page\<lparr>files_text := lit ''Error: Cannot convert object to primitive value'',
     requests := [loadRepo_request (PercentEncoded (lit ''a/b''))]\<rparr>)"
proof -
  let ?files = "JObject [(lit ''message'', JString (lit ''42 files''))]"
  let ?flag = "JObject [(lit ''message'', JBool True)]"
  let ?broken = "JObject [(lit ''message'', unprintable)]"
  note rule = loadRepo_success_displays_message
    [OF filled_page_valid(1) filled_page_valid(2), of _ _ v8, unfolded Let_def]
  have "get_field v8 ?files (lit ''message'') = Inr (Some (JString (lit ''42 files'')))"
    by simp
  with rule [of "\<lparr>status = 200, body = Inr ?files\<rparr>" ?files]
  have verbatim: "loadRepo v8 (Responded \<lparr>status = 200, body = Inr ?files\<rparr>) filled_page =
      Normal (filled_page\<lparr>files_text := lit ''42 files'',
        requests := requests filled_page @
          [loadRepo_request (PercentEncoded (trim (repo_url_value filled_page)))]\<rparr>)"
    by (simp add: ok_def)
  have "get_field v8 (JObject []) (lit ''message'') = Inr None"
    by simp
  with rule [of "\<lparr>status = 202, body = Inr (JObject [])\<rparr>" "JObject []"]
  have cleared: "loadRepo v8 (Responded \<lparr>status = 202, body = Inr (JObject [])\<rparr>) filled_page =
      Normal (filled_page\<lparr>files_text := [],
        requests := requests filled_page @
          [loadRepo_request (PercentEncoded (trim (repo_url_value filled_page)))]\<rparr>)"
    by (simp add: ok_def)
  have "get_field v8 ?flag (lit ''message'') = Inr (Some (JBool True))"
    "to_string v8 (JBool True) = Inr (lit ''true'')"
    by simp_all
  with rule [of "\<lparr>status = 200, body = Inr ?flag\<rparr>" ?flag]
  have converted: "loadRepo v8 (Responded \<lparr>status = 200, body = Inr ?flag\<rparr>) filled_page =
      Normal (filled_page\<lparr>files_text := lit ''true'',
        requests := requests filled_page @
          [loadRepo_request (PercentEncoded (trim (repo_url_value filled_page)))]\<rparr>)"
    by (simp add: ok_def)
  from rule [of "\<lparr>status = 201, body = Inr JNull\<rparr>" JNull]
  have null: "loadRepo v8 (Responded \<lparr>status = 201, body = Inr JNull\<rparr>) filled_page =
      Normal (filled_page\<lparr>files_text := lit ''Error: '' @ null_read_message v8 (lit ''message''),
        requests := requests filled_page @
          [loadRepo_request (PercentEncoded (trim (repo_url_value filled_page)))]\<rparr>)"
    by (simp add: ok_def)
  have "get_field v8 ?broken (lit ''message'') = Inr (Some unprintable)"
    by simp
  with rule [of "\<lparr>status = 201, body = Inr ?broken\<rparr>" ?broken] unprintable_throws [of v8]
  have thrown: "loadRepo v8 (Responded \<lparr>status = 201, body = Inr ?broken\<rparr>) filled_page =
      Normal (filled_page\<lparr>files_text := lit ''Error: '' @ to_primitive_message v8,
        requests := requests filled_page @
          [loadRepo_request (PercentEncoded (trim (repo_url_value filled_page)))]\<rparr>)"
    by (simp add: ok_def)
  from verbatim cleared converted null thrown show ?thesis
    by (simp add: v8_messages filled_page_inputs filled_page_untouched)
qed

text \<open>
  \<^bold>\<open>C3.\<close> For a question that is not empty after trimming, \<open>askQuestion\<close> has
  appended \<^verbatim>\<open>You: \<close> and the question to the chat box by the time it is suspended with
  its request issued, and whatever the outcome of the fetch, the execution ends with that
  entry in the log, followed by one further entry.
\<close>

theorem askQuestion_logs_question_first:
  assumes "trim (question_value p) \<noteq> []"
  shows "(uri_encodable (trim (question_value p)) \<longrightarrow>
            askQuestion_start eng p =
              Awaiting (p\<lparr>chat_box := chat_box p @ [lit ''You: '' @ trim (question_value p)],
                          requests := requests p @
                            [askQuestion_request (PercentEncoded (trim (question_value p)))]\<rparr>)) \<and>
         (\<exists>r reqs. askQuestion eng out p =
            Normal (p\<lparr>chat_box := chat_box p @ [lit ''You: '' @ trim (question_value p), r],
                      requests := reqs\<rparr>))"
proof
  show "uri_encodable (trim (question_value p)) \<longrightarrow>
          askQuestion_start eng p =
            Awaiting (p\<lparr>chat_box := chat_box p @ [lit ''You: '' @ trim (question_value p)],
                        requests := requests p @
                          [askQuestion_request (PercentEncoded (trim (question_value p)))]\<rparr>)"
    using assms by (simp add: askQuestion_start_sent)
next
  from askQuestion_once [OF assms, of eng out]
  show "\<exists>r reqs. askQuestion eng out p =
          Normal (p\<lparr>chat_box := chat_box p @ [lit ''You: '' @ trim (question_value p), r],
                    requests := reqs\<rparr>)"
    by blast
qed

theorem askQuestion_logs_question_first_witness:
  "askQuestion_start v8 filled_page =
     Awaiting (filled_page\<lparr>chat_box := [lit ''You: hi''],
       requests := [askQuestion_request (PercentEncoded (lit ''hi''))]\<rparr>) \<and>
   (\<exists>r reqs. askQuestion v8 (Rejected (Exn (lit ''Failed to fetch''))) filled_page =
      Normal (filled_page\<lparr>chat_box := [lit ''You: hi'', r], requests := reqs\<rparr>))"
proof -
  have you: "lit ''You: '' @ lit ''hi'' = lit ''You: hi''"
    by (simp add: lit_def)
  show ?thesis
    using askQuestion_logs_question_first
      [OF filled_page_valid(3), of v8 "Rejected (Exn (lit ''Failed to fetch''))"]
      filled_page_valid(4)
    by (simp add: filled_page_inputs filled_page_untouched you)
qed

text \<open>
  \<^bold>\<open>C7.\<close> Two executions of \<open>askQuestion\<close> one after the other, the operator having
  entered a second question in between, both questions not empty after trimming, extend
  the chat box by exactly four entries: the first question, its reply, the second
  question, its reply. Each reply starts with \<^verbatim>\<open>Bot: \<close> or \<^verbatim>\<open>Error: \<close>.
\<close>

theorem two_questions_four_entries:
  assumes "trim (question_value p) \<noteq> []" and "trim q2 \<noteq> []"
  shows "\<exists>p1 p2 r1 r2.
           askQuestion eng out1 p = Normal p1 \<and>
           askQuestion eng out2 (p1\<lparr>question_value := q2\<rparr>) = Normal p2 \<and>
           chat_box p2 = chat_box p @
             [lit ''You: '' @ trim (question_value p), r1, lit ''You: '' @ trim q2, r2] \<and>
           is_reply r1 \<and> is_reply r2"
proof -
  obtain r1 reqs1 where first:
    "askQuestion eng out1 p =
       Normal (p\<lparr>chat_box := chat_box p @ [lit ''You: '' @ trim (question_value p), r1],
                 requests := reqs1\<rparr>)"
    and reply1: "is_reply r1"
    using askQuestion_once [OF assms(1), of eng out1] by blast
  let ?p1 = "p\<lparr>chat_box := chat_box p @ [lit ''You: '' @ trim (question_value p), r1],
               requests := reqs1\<rparr>"
  have "trim (question_value (?p1\<lparr>question_value := q2\<rparr>)) \<noteq> []"
    using assms(2) by simp
  from askQuestion_once [OF this, of eng out2]
  obtain r2 reqs2 where second:
    "askQuestion eng out2 (?p1\<lparr>question_value := q2\<rparr>) =
       Normal (?p1\<lparr>question_value := q2,
                 chat_box := chat_box ?p1 @ [lit ''You: '' @ trim q2, r2],
                 requests := reqs2\<rparr>)"
    and reply2: "is_reply r2"
    by auto
  have "chat_box (?p1\<lparr>question_value := q2,
                 chat_box := chat_box ?p1 @ [lit ''You: '' @ trim q2, r2],
                 requests := reqs2\<rparr>) =
        chat_box p @ [lit ''You: '' @ trim (question_value p), r1, lit ''You: '' @ trim q2, r2]"
    by simp
  with first second reply1 reply2 show ?thesis
    by blast
qed

theorem two_questions_four_entries_witness:
  "\<exists>p1 p2 r1 r2.
     askQuestion v8 (Responded \<lparr>status = 200, body = Inr (JObject [(lit ''answer'', JString (lit ''ok''))])\<rparr>)
       filled_page = Normal p1 \<and>
     askQuestion v8 (Rejected (Exn (lit ''Failed to fetch''))) (p1\<lparr>question_value := lit ''why''\<rparr>)
       = Normal p2 \<and>
     chat_box p2 = [lit ''You: hi'', r1, lit ''You: why'', r2] \<and> is_reply r1 \<and> is_reply r2"
proof -
  have q2: "trim (lit ''why'') = lit ''why''" "lit ''why'' \<noteq> []"
    by (simp_all add: trim_def lit_def js_whitespace_def)
  then have valid: "trim (lit ''why'') \<noteq> []"
    by simp
  have you: "lit ''You: '' @ lit ''hi'' = lit ''You: hi''"
    "lit ''You: '' @ lit ''why'' = lit ''You: why''"
    by (simp_all add: lit_def)
  show ?thesis
    using two_questions_four_entries [OF filled_page_valid(3) valid, of v8
      "Responded \<lparr>status = 200, body = Inr (JObject [(lit ''answer'', JString (lit ''ok''))])\<rparr>"
      "Rejected (Exn (lit ''Failed to fetch''))"]
    by (simp add: filled_page_inputs filled_page_untouched q2 you)
qed

text \<open>
  \<^bold>\<open>C8.\<close> A response to \<^verbatim>\<open>/process_repo\<close> with a success status whose body cannot
  be parsed makes \<open>generateSummary\<close> display
  \<^verbatim>\<open>Error: Unexpected response. Please check the backend.\<close>, an error text and not the
  empty string.
\<close>

theorem generateSummary_unparseable_success_reports:
  assumes "trim (summary_repo_value p) \<noteq> []" and "trim (summary_role_value p) \<noteq> []"
    and "ok resp" and "body resp = Inl e"
  shows "generateSummary eng (Responded resp) p =
           Normal (p\<lparr>summary_box_text :=
                       lit ''Error: Unexpected response. Please check the backend.'',
                     requests := requests p @
                       [generateSummary_request (trim (summary_role_value p))
                          (trim (summary_repo_value p))]\<rparr>) \<and>
         reports_error (lit ''Error: Unexpected response. Please check the backend.'') \<and>
         lit ''Error: Unexpected response. Please check the backend.'' \<noteq> []"
proof -
  have "reports_error (lit ''Error: Unexpected response. Please check the backend.'')"
    by (simp add: unexpected_response_is_error reports_error_prefix)
  moreover have "lit ''Error: Unexpected response. Please check the backend.'' \<noteq> []"
    by (simp add: lit_def)
  ultimately show ?thesis
    using generateSummary_unparseable [OF assms(1,2,4)] by simp
qed

theorem generateSummary_unparseable_success_reports_witness:
  "ok \<lparr>status = 200, body = Inl (Exn (lit ''Unexpected token''))\<rparr> \<and>
   generateSummary v8 (Responded \<lparr>status = 200, body = Inl (Exn (lit ''Unexpected token''))\<rparr>)
     filled_page =
   Normal (filled_page\<lparr>summary_box_text :=
       lit ''Error: Unexpected response. Please check the backend.'',
     requests := [generateSummary_request (lit ''dev'') (lit ''a/b'')]\<rparr>)"
proof -
  let ?resp = "\<lparr>status = 200, body = Inl (Exn (lit ''Unexpected token''))\<rparr>"
  have status: "ok ?resp" by (simp add: ok_def)
  have unparseable: "body ?resp = Inl (Exn (lit ''Unexpected token''))" by simp
  show ?thesis
    using status generateSummary_unparseable_success_reports
      [OF filled_page_valid(6) filled_page_valid(5) status unparseable, of v8]
    by (simp add: filled_page_inputs filled_page_untouched)
qed

text \<open>
  \<^bold>\<open>C10.\<close> A response to \<^verbatim>\<open>/process_repo\<close> whose body cannot be parsed makes
  \<open>generateSummary\<close> display \<^verbatim>\<open>Error: Unexpected response. Please check the backend.\<close>
  whatever its status code; the text of the status branch, \<^verbatim>\<open>Error: Failed\<close>, is
  not shown.
\<close>

theorem generateSummary_unparseable_any_status:
  assumes "trim (summary_repo_value p) \<noteq> []" and "trim (summary_role_value p) \<noteq> []"
  shows "generateSummary eng (Responded \<lparr>status = code, body = Inl e\<rparr>) p =
           Normal (p\<lparr>summary_box_text :=
                       lit ''Error: Unexpected response. Please check the backend.'',
                     requests := requests p @
                       [generateSummary_request (trim (summary_role_value p))
                          (trim (summary_repo_value p))]\<rparr>) \<and>
         lit ''Error: Unexpected response. Please check the backend.'' \<noteq> lit ''Error: Failed''"
proof -
  have "body \<lparr>status = code, body = Inl e\<rparr> = Inl e"
    by simp
  from generateSummary_unparseable [OF assms this]
  show ?thesis
    by (simp add: lit_def)
qed

theorem generateSummary_unparseable_any_status_witness:
  "\<not> ok \<lparr>status = 503, body = Inl (Exn (lit ''Unexpected token''))\<rparr> \<and>
   generateSummary v8 (Responded \<lparr>status = 503, body = Inl (Exn (lit ''Unexpected token''))\<rparr>)
     filled_page =
   Normal (filled_page\<lparr>summary_box_text :=
       lit ''Error: Unexpected response. Please check the backend.'',
     requests := [generateSummary_request (lit ''dev'') (lit ''a/b'')]\<rparr>)"
proof -
  have "\<not> ok \<lparr>status = 503, body = Inl (Exn (lit ''Unexpected token''))\<rparr>"
    by (simp add: ok_def)
  then show ?thesis
    using generateSummary_unparseable_any_status
      [OF filled_page_valid(6) filled_page_valid(5), of v8 503 "Exn (lit ''Unexpected token'')"]
    by (simp add: filled_page_inputs filled_page_untouched)
qed




end
